theory Spec2Isabelle
  imports Complex_Main
begin

section \<open>The correlated ensemble simulator of \<open>wisdom_app.py\<close>\<close>

text \<open>
  The development embeds \<open>simulate_collective_accuracy\<close> (lines 7 to 65 of
  \<open>src/wisdom_app.py\<close>) and the running average computed by \<open>main\<close> (line 87).

  Conventions of the embedding:
  \<^item> Python integers (\<open>num_learners\<close>, \<open>num_simulations\<close>) are values of type \<open>int\<close>.
  \<^item> Python floats (\<open>individual_accuracy\<close>, \<open>correlation_strength\<close>) are idealised as
    real numbers: rounding of IEEE arithmetic is not modelled. The one non-real value
    that the code can produce, NaN, is modelled: an array element is a \<open>real option\<close>
    where \<open>None\<close> stands for NaN.
  \<^item> The process-wide random generator of NumPy is an explicit infinite sequence of
    uniform samples together with a position in it; every draw advances the
    position. The position is returned also when the call raises, as the generator
    state survives an exception.
  \<^item> One effect of the finite range of floats is modelled, because Python turns it
    into an exception: the power \<open>correlation_strength**2\<close> of line 55 raises
    \<open>OverflowError\<close> when the square is too large for a double.
  \<^item> Every exception the code can raise is a value of type \<open>error\<close>. Exhaustion of
    memory by the allocations is not modelled.
\<close>

subsection \<open>NumPy primitives used by the code\<close>

datatype error = ValueError | IndexError | OverflowError

type_synonym npfloat = "real option"

type_synonym rng = "nat \<Rightarrow> real"

text \<open>
  \<open>np.random.choice([1, 0], size=sz, p=[p, 1 - p])\<close>. NumPy rejects a probability
  vector with a negative entry with \<open>ValueError\<close>; otherwise it takes \<open>sz\<close> uniform
  samples \<open>u\<close> of \<open>[0, 1)\<close> and looks each up in the cumulative distribution
  \<open>[p, 1]\<close> (\<open>searchsorted\<close> from the right), which selects the element \<open>1\<close> when
  \<open>u < p\<close> and the element \<open>0\<close> otherwise. The generator only produces samples
  with \<open>0 \<le> u < 1\<close>; where a result depends on that, it is a hypothesis.
\<close>

definition bernoulli :: "real \<Rightarrow> real \<Rightarrow> int" where
  "bernoulli u p = (if u < p then 1 else 0)"

definition random_choice :: "rng \<Rightarrow> nat \<Rightarrow> nat \<Rightarrow> real \<Rightarrow> error + (int list \<times> nat)" where
  "random_choice g pos sz p =
     (if p < 0 \<or> 1 - p < 0 then Inl ValueError
      else Inr (map (\<lambda>k. bernoulli (g (pos + k)) p) [0..<sz], pos + sz))"

text \<open>
  The power \<open>x**2\<close> of a Python float. It raises \<open>OverflowError\<close> when the result is
  infinite, which under rounding to nearest is the case from \<open>2^1024 - 2^970\<close> on
  (the largest double plus half a unit in its last place).
\<close>

definition float_overflow :: real where
  "float_overflow = 2 ^ 1024 - 2 ^ 970"

definition py_float_square :: "real \<Rightarrow> error + real" where
  "py_float_square x = (if float_overflow \<le> x ^ 2 then Inl OverflowError else Inr (x ^ 2))"

text \<open>\<open>np.sqrt\<close> of a negative number is NaN (with a warning, not an exception).\<close>

definition np_sqrt :: "real \<Rightarrow> npfloat" where
  "np_sqrt x = (if x < 0 then None else Some (sqrt x))"

text \<open>\<open>np.clip(a, lo, hi)\<close> is \<open>minimum(maximum(a, lo), hi)\<close>; NaN stays NaN.\<close>

definition np_clip :: "npfloat \<Rightarrow> real \<Rightarrow> real \<Rightarrow> npfloat" where
  "np_clip a lo hi = map_option (\<lambda>x. min (max x lo) hi) a"

text \<open>The comparison \<open>a >= b\<close>; every comparison with NaN is false.\<close>

definition np_ge :: "npfloat \<Rightarrow> real \<Rightarrow> bool" where
  "np_ge a b = (case a of None \<Rightarrow> False | Some x \<Rightarrow> b \<le> x)"

text \<open>
  A two-dimensional boolean array: its number of columns (which an array with no
  row still has) and its rows.
\<close>

record grid =
  n_cols :: nat
  cells :: "bool list list"

definition np_zeros :: "nat \<Rightarrow> nat \<Rightarrow> grid" where
  "np_zeros r c = \<lparr>n_cols = c, cells = replicate r (replicate c False)\<rparr>"

text \<open>The read \<open>a[:, i]\<close>, used by the code with \<open>i\<close> below the number of columns only.\<close>

definition get_column :: "grid \<Rightarrow> nat \<Rightarrow> bool list" where
  "get_column a i = map (\<lambda>row. row ! i) (cells a)"

text \<open>
  The assignment \<open>a[:, i] = v\<close>, with \<open>v\<close> already cast to the array's type \<open>bool\<close>:
  an index that is not a column raises \<open>IndexError\<close>.
\<close>

definition set_column :: "grid \<Rightarrow> nat \<Rightarrow> bool list \<Rightarrow> error + grid" where
  "set_column a i v =
     (if i < n_cols a then Inr (a\<lparr>cells := map2 (\<lambda>row x. row[i := x]) (cells a) v\<rparr>)
      else Inl IndexError)"

text \<open>\<open>np.sum(a, axis=1)\<close>: the number of true cells of every row.\<close>

definition np_sum_rows :: "grid \<Rightarrow> int list" where
  "np_sum_rows a = map (\<lambda>row. int (length (filter (\<lambda>b. b) row))) (cells a)"

text \<open>\<open>np.mean\<close> of a boolean array; the mean of an empty array is NaN.\<close>

definition np_mean :: "bool list \<Rightarrow> npfloat" where
  "np_mean xs =
     (if xs = [] then None
      else Some (real (length (filter (\<lambda>b. b) xs)) / real (length xs)))"

subsection \<open>\<open>simulate_collective_accuracy\<close>\<close>

text \<open>
  Lines 53 to 56, for one trial: \<open>sq\<close> is the value of \<open>correlation_strength**2\<close>,
  \<open>prev\<close> the cell of learner \<open>i - 1\<close> and \<open>fresh\<close> the fresh draw. A NaN square root
  makes the whole sum NaN.
\<close>

definition correlated_value :: "real \<Rightarrow> real \<Rightarrow> bool \<Rightarrow> int \<Rightarrow> npfloat" where
  "correlated_value sq correlation_strength prev fresh =
     (case np_sqrt (1 - sq) of
        None \<Rightarrow> None
      | Some s \<Rightarrow>
          Some (correlation_strength * real_of_int (2 * (if prev then 1 else 0) - 1)
                + s * real_of_int fresh))"

definition correlated_values ::
  "real \<Rightarrow> real \<Rightarrow> bool list \<Rightarrow> int list \<Rightarrow> npfloat list" where
  "correlated_values sq correlation_strength prevs freshs =
     map2 (correlated_value sq correlation_strength) prevs freshs"

text \<open>
  The loop of lines 52 to 57 over the learner indices still to do. The state is the
  grid and the position of the random source. Python evaluates the operands of
  line 55 from left to right: the power is computed, and may raise, before the
  draws of that learner are made.
\<close>

fun learners_loop ::
  "nat \<Rightarrow> real \<Rightarrow> real \<Rightarrow> rng \<Rightarrow> nat list \<Rightarrow> grid \<Rightarrow> nat \<Rightarrow> (error + grid) \<times> nat" where
  "learners_loop num_simulations individual_accuracy correlation_strength g [] est pos =
     (Inr est, pos)"
| "learners_loop num_simulations individual_accuracy correlation_strength g (i # rest) est pos =
     (case py_float_square correlation_strength of
        Inl e \<Rightarrow> (Inl e, pos)
      | Inr sq \<Rightarrow>
          (case random_choice g pos num_simulations individual_accuracy of
             Inl e \<Rightarrow> (Inl e, pos)
           | Inr (fresh, pos') \<Rightarrow>
               (case set_column est i
                       (map (\<lambda>v. np_ge (np_clip v 0 1) individual_accuracy)
                          (correlated_values sq correlation_strength
                             (get_column est (i - 1)) fresh)) of
                  Inl e \<Rightarrow> (Inl e, pos')
                | Inr est' \<Rightarrow>
                    learners_loop num_simulations individual_accuracy correlation_strength g
                      rest est' pos')))"

text \<open>
  Lines 45 to 57: the grid of learner outcomes. \<open>np.zeros\<close> raises \<open>ValueError\<close> on a
  negative dimension. The vector allocated in line 46 is replaced in line 60 and
  never read; its allocation cannot raise once line 45 has passed. In line 49 the
  draws are made before the assignment to column \<open>0\<close> is attempted.
\<close>

definition individual_estimates ::
  "int \<Rightarrow> int \<Rightarrow> real \<Rightarrow> real \<Rightarrow> rng \<Rightarrow> nat \<Rightarrow> (error + grid) \<times> nat" where
  "individual_estimates num_learners num_simulations individual_accuracy correlation_strength g pos =
     (if num_simulations < 0 \<or> num_learners < 0 then (Inl ValueError, pos)
      else
        let est0 = np_zeros (nat num_simulations) (nat num_learners) in
        case random_choice g pos (nat num_simulations) individual_accuracy of
          Inl e \<Rightarrow> (Inl e, pos)
        | Inr (first, pos1) \<Rightarrow>
            (case set_column est0 0 (map (\<lambda>v. v \<noteq> 0) first) of
               Inl e \<Rightarrow> (Inl e, pos1)
             | Inr est1 \<Rightarrow>
                 learners_loop (nat num_simulations) individual_accuracy correlation_strength g
                   [1..<nat num_learners] est1 pos1))"

text \<open>Line 60: the majority vote of every trial.\<close>

definition collective_accuracies :: "int \<Rightarrow> grid \<Rightarrow> bool list" where
  "collective_accuracies num_learners est =
     map (\<lambda>s. num_learners div 2 + 1 \<le> s) (np_sum_rows est)"

text \<open>The whole function: the pair it returns, or the exception it raises.\<close>

definition simulate_collective_accuracy ::
  "int \<Rightarrow> int \<Rightarrow> real \<Rightarrow> real \<Rightarrow> rng \<Rightarrow> nat \<Rightarrow> (error + (npfloat \<times> bool list)) \<times> nat" where
  "simulate_collective_accuracy num_learners num_simulations individual_accuracy
       correlation_strength g pos =
     (case individual_estimates num_learners num_simulations individual_accuracy
             correlation_strength g pos of
        (Inl e, pos') \<Rightarrow> (Inl e, pos')
      | (Inr est, pos') \<Rightarrow>
          let ca = collective_accuracies num_learners est
          in (Inr (np_mean ca, ca), pos'))"

subsection \<open>The running average of \<open>main\<close>\<close>

text \<open>\<open>np.cumsum\<close> of a boolean array: the running count of true entries.\<close>

fun cumsum_from :: "int \<Rightarrow> bool list \<Rightarrow> int list" where
  "cumsum_from acc [] = []"
| "cumsum_from acc (b # bs) =
     (acc + (if b then 1 else 0)) # cumsum_from (acc + (if b then 1 else 0)) bs"

definition np_cumsum :: "bool list \<Rightarrow> int list" where
  "np_cumsum xs = cumsum_from 0 xs"

text \<open>
  Line 87: \<open>np.cumsum(collective_accuracies) / np.arange(1, num_simulations + 1)\<close>, the
  element-wise true division of two one-dimensional arrays. Arrays of the same
  length are divided pointwise, an array of length one is broadcast along the
  other, and any other pair of lengths raises \<open>ValueError\<close>. No divisor is zero.
\<close>

definition cumulative_accuracies :: "bool list \<Rightarrow> int \<Rightarrow> error + real list" where
  "cumulative_accuracies ca num_simulations =
     (let cs = np_cumsum ca; ks = [1..num_simulations] in
      if length cs = length ks
        then Inr (map2 (\<lambda>s k. real_of_int s / real_of_int k) cs ks)
      else if length cs = 1
        then Inr (map (\<lambda>k. real_of_int (hd cs) / real_of_int k) ks)
      else if length ks = 1
        then Inr (map (\<lambda>s. real_of_int s / real_of_int (hd ks)) cs)
      else Inl ValueError)"

subsection \<open>Random sources used in the examples\<close>

text \<open>A source that returns the same sample \<open>u\<close> at every position.\<close>

definition constant_source :: "real \<Rightarrow> rng" where
  "constant_source u k = u"

subsection \<open>The specification's wording\<close>

text \<open>
  The construction of a learner's outcome from the previous one as the
  specification words it: the previous outcome as a bipolar signal, the blended
  value, its clipping to the unit interval and the threshold test.
\<close>

definition spec_bipolar :: "bool \<Rightarrow> real" where
  "spec_bipolar correct = (if correct then 1 else - 1)"

definition spec_blended :: "real \<Rightarrow> bool \<Rightarrow> int \<Rightarrow> real" where
  "spec_blended correlation_strength previous fresh =
     correlation_strength * spec_bipolar previous
     + sqrt (1 - correlation_strength ^ 2) * real_of_int fresh"

definition spec_clip :: "real \<Rightarrow> real" where
  "spec_clip x = (if x < 0 then 0 else if 1 < x then 1 else x)"

definition spec_learner_outcome :: "real \<Rightarrow> real \<Rightarrow> bool \<Rightarrow> int \<Rightarrow> bool" where
  "spec_learner_outcome individual_accuracy correlation_strength previous fresh =
     (individual_accuracy \<le> spec_clip (spec_blended correlation_strength previous fresh))"

text \<open>The number of correct learners of a trial, and the arithmetic mean of a sequence.\<close>

definition spec_correct_count :: "nat \<Rightarrow> bool list \<Rightarrow> nat" where
  "spec_correct_count num_learners row = card {i. i < num_learners \<and> row ! i}"

definition spec_arithmetic_mean :: "real list \<Rightarrow> real" where
  "spec_arithmetic_mean xs = sum_list xs / real (length xs)"

definition spec_indicator :: "bool \<Rightarrow> real" where
  "spec_indicator b = (if b then 1 else 0)"

text \<open>Rounding to three decimals.\<close>

definition spec_round3 :: "real \<Rightarrow> real" where
  "spec_round3 x = real_of_int (round (x * 1000)) / 1000"

subsection \<open>A closed form of the grid\<close>

text \<open>
  The outcome of learner \<open>i\<close> in trial \<open>t\<close>, by recursion on the learner: the draws of
  learner \<open>i\<close> are the samples \<open>pos + i * S\<close> to \<open>pos + i * S + S - 1\<close> of the random
  source. \<open>chain_grid k\<close> is the grid after the columns below \<open>k\<close> have been written.
  Both are auxiliary: \<open>individual_estimates_chain\<close> below proves that the code
  computes \<open>chain_grid\<close> whenever the square of the correlation strength does not
  overflow.
\<close>

fun chain_outcome :: "nat \<Rightarrow> real \<Rightarrow> real \<Rightarrow> rng \<Rightarrow> nat \<Rightarrow> nat \<Rightarrow> nat \<Rightarrow> bool" where
  "chain_outcome S p c g pos t 0 = (bernoulli (g (pos + t)) p \<noteq> 0)"
| "chain_outcome S p c g pos t (Suc i) =
     np_ge (np_clip (correlated_value (c ^ 2) c (chain_outcome S p c g pos t i)
                       (bernoulli (g (pos + Suc i * S + t)) p)) 0 1) p"

definition chain_grid :: "nat \<Rightarrow> nat \<Rightarrow> nat \<Rightarrow> real \<Rightarrow> real \<Rightarrow> rng \<Rightarrow> nat \<Rightarrow> grid" where
  "chain_grid k n S p c g pos =
     \<lparr>n_cols = n,
      cells = map (\<lambda>t. map (\<lambda>i. i < k \<and> chain_outcome S p c g pos t i) [0..<n]) [0..<S]\<rparr>"

section \<open>The code computes the chain\<close>

lemma map2_same_upt:
  "map2 f (map a [0..<S]) (map b [0..<S]) = map (\<lambda>t. f (a t) (b t)) [0..<S]"
  by (rule nth_equalityI) simp_all

lemma row_update:
  "k < n \<Longrightarrow> (map (\<lambda>i. i < k \<and> P i) [0..<n])[k := P k] = map (\<lambda>i. i < Suc k \<and> P i) [0..<n]"
  by (rule nth_equalityI) (auto simp: nth_list_update less_Suc_eq)

lemma chain_grid_first:
  assumes "0 < n"
  shows "set_column (np_zeros S n) 0 (map (\<lambda>v. v \<noteq> 0) (map (\<lambda>k. bernoulli (g (pos + k)) p) [0..<S]))
         = Inr (chain_grid 1 n S p c g pos)"
proof -
  have row: "(replicate n False)[0 := b] = map (\<lambda>i. i = 0 \<and> P i) [0..<n]" if "b = P 0" for P b
    using assms that by (intro nth_equalityI) (auto simp: nth_list_update)
  have "map2 (\<lambda>row x. row[0 := x]) (replicate S (replicate n False))
          (map (\<lambda>v. v \<noteq> 0) (map (\<lambda>k. bernoulli (g (pos + k)) p) [0..<S]))
        = map (\<lambda>t. map (\<lambda>i. i < Suc 0 \<and> chain_outcome S p c g pos t i) [0..<n]) [0..<S]"
    by (rule nth_equalityI) (auto simp: row)
  then show ?thesis
    using assms by (simp add: set_column_def np_zeros_def chain_grid_def)
qed

lemma chain_grid_step:
  assumes "0 < k" "k < n"
  shows "set_column (chain_grid k n S p c g pos) k
           (map (\<lambda>v. np_ge (np_clip v 0 1) p)
              (correlated_values (c ^ 2) c (get_column (chain_grid k n S p c g pos) (k - 1))
                 (map (\<lambda>t. bernoulli (g (pos + k * S + t)) p) [0..<S])))
         = Inr (chain_grid (Suc k) n S p c g pos)"
proof -
  obtain j where k: "k = Suc j" using assms(1) by (cases k) auto
  have col: "get_column (chain_grid k n S p c g pos) (k - 1)
             = map (\<lambda>t. chain_outcome S p c g pos t j) [0..<S]"
    using assms k by (simp add: get_column_def chain_grid_def)
  have new: "map (\<lambda>v. np_ge (np_clip v 0 1) p)
              (correlated_values (c ^ 2) c (get_column (chain_grid k n S p c g pos) (k - 1))
                 (map (\<lambda>t. bernoulli (g (pos + k * S + t)) p) [0..<S]))
             = map (\<lambda>t. chain_outcome S p c g pos t k) [0..<S]"
    unfolding col correlated_values_def map2_same_upt by (simp add: k)
  show ?thesis
    using assms(2) unfolding new
    by (simp add: set_column_def chain_grid_def map2_same_upt row_update)
qed

lemma py_float_square_fits:
  "c ^ 2 < float_overflow \<Longrightarrow> py_float_square c = Inr (c ^ 2)"
  by (simp add: py_float_square_def)

lemma unit_below_float_overflow: "1 < float_overflow"
  by (simp add: float_overflow_def)

lemma unit_square_fits:
  assumes "- 1 \<le> c" "c \<le> 1"
  shows "c ^ 2 < float_overflow"
proof -
  have "c ^ 2 \<le> 1" using assms by (simp add: abs_square_le_1 abs_le_iff)
  with unit_below_float_overflow show ?thesis by simp
qed





lemma learners_loop_chain:
  assumes p: "0 \<le> p" "p \<le> 1" and km: "k \<le> m" and k: "0 < k" and m: "m \<le> n"
    and c: "c ^ 2 < float_overflow"
  shows "learners_loop S p c g [k..<m] (chain_grid k n S p c g pos) (pos + k * S)
         = (Inr (chain_grid m n S p c g pos), pos + m * S)"
  using km k
proof (induction k rule: inc_induct)
  case base
  then show ?case by simp
next
  case (step j)
  have j: "0 < j" "j < n" "j < m" using step m by simp_all
  have rc: "random_choice g (pos + j * S) S p
            = Inr (map (\<lambda>t. bernoulli (g (pos + j * S + t)) p) [0..<S], pos + Suc j * S)"
    using p by (simp add: random_choice_def)
  have "learners_loop S p c g [j..<m] (chain_grid j n S p c g pos) (pos + j * S)
        = learners_loop S p c g [Suc j..<m] (chain_grid (Suc j) n S p c g pos) (pos + Suc j * S)"
    using j
    by (simp only: upt_conv_Cons learners_loop.simps py_float_square_fits[OF c] rc
        chain_grid_step sum.case prod.case)
  also have "\<dots> = (Inr (chain_grid m n S p c g pos), pos + m * S)"
    using step.IH by simp
  finally show ?case .
qed

lemma individual_estimates_chain:
  assumes "0 \<le> p" "p \<le> 1" "1 \<le> n" "0 \<le> S" "c ^ 2 < float_overflow"
  shows "individual_estimates n S p c g pos
         = (Inr (chain_grid (nat n) (nat n) (nat S) p c g pos), pos + nat n * nat S)"
proof -
  have n: "0 < nat n" using assms by simp
  show ?thesis
    using assms chain_grid_first[OF n, of "nat S" g pos p c]
      learners_loop_chain[of p 1 "nat n" "nat n" c "nat S" g pos]
    by (simp add: individual_estimates_def random_choice_def)
qed

lemma chain_grid_cells_length: "length (cells (chain_grid k n S p c g pos)) = S"
  by (simp add: chain_grid_def)

lemma chain_grid_row:
  "t < S \<Longrightarrow> cells (chain_grid n n S p c g pos) ! t = map (chain_outcome S p c g pos t) [0..<n]"
  by (simp add: chain_grid_def)

lemma chain_grid_cell:
  "t < S \<Longrightarrow> i < n \<Longrightarrow> cells (chain_grid n n S p c g pos) ! t ! i = chain_outcome S p c g pos t i"
  by (simp add: chain_grid_def)

lemma simulate_chain:
  assumes "0 \<le> p" "p \<le> 1" "1 \<le> n" "0 \<le> S" "c ^ 2 < float_overflow"
  shows "simulate_collective_accuracy n S p c g pos
         = (Inr (np_mean (collective_accuracies n (chain_grid (nat n) (nat n) (nat S) p c g pos)),
                 collective_accuracies n (chain_grid (nat n) (nat n) (nat S) p c g pos)),
            pos + nat n * nat S)"
  using individual_estimates_chain[OF assms]
  by (simp add: simulate_collective_accuracy_def Let_def)

lemma collective_accuracies_length:
  "length (collective_accuracies n est) = length (cells est)"
  by (simp add: collective_accuracies_def np_sum_rows_def)

lemma collective_accuracies_nth:
  "t < length (cells est) \<Longrightarrow>
   collective_accuracies n est ! t = (n div 2 + 1 \<le> int (length (filter (\<lambda>b. b) (cells est ! t))))"
  by (simp add: collective_accuracies_def np_sum_rows_def)

lemma correlated_value_in_range:
  assumes "- 1 \<le> c" "c \<le> 1"
  shows "correlated_value (c ^ 2) c prev fresh = Some (spec_blended c prev fresh)"
proof -
  have "c ^ 2 \<le> 1" using assms by (simp add: abs_square_le_1 abs_le_iff)
  then show ?thesis
    by (simp add: correlated_value_def np_sqrt_def spec_blended_def spec_bipolar_def)
qed

lemma np_clip_unit: "np_clip (Some x) 0 1 = Some (spec_clip x)"
  by (simp add: np_clip_def spec_clip_def min_def max_def)

lemma chain_outcome_Suc_spec:
  assumes "- 1 \<le> c" "c \<le> 1"
  shows "chain_outcome S p c g pos t (Suc i)
         = spec_learner_outcome p c (chain_outcome S p c g pos t i)
             (bernoulli (g (pos + Suc i * S + t)) p)"
  by (simp add: correlated_value_in_range[OF assms] np_clip_unit np_ge_def spec_learner_outcome_def)

section \<open>Auxiliary facts\<close>

lemma count_true_card:
  "length (filter (\<lambda>b. b) row) = spec_correct_count (length row) row"
  by (simp add: length_filter_conv_card spec_correct_count_def)

lemma sum_indicator:
  "sum_list (map spec_indicator xs) = real (length (filter (\<lambda>b. b) xs))"
  by (induction xs) (simp_all add: spec_indicator_def)

lemma np_mean_spec:
  "xs \<noteq> [] \<Longrightarrow> np_mean xs = Some (spec_arithmetic_mean (map spec_indicator xs))"
  by (simp add: np_mean_def spec_arithmetic_mean_def sum_indicator)

lemma np_mean_bounds:
  assumes "np_mean xs = Some m"
  shows "0 \<le> m \<and> m \<le> 1"
proof -
  have ne: "xs \<noteq> []" and m: "m = real (length (filter (\<lambda>b. b) xs)) / real (length xs)"
    using assms by (auto simp: np_mean_def split: if_splits)
  have "real (length (filter (\<lambda>b. b) xs)) \<le> real (length xs)"
    by simp
  moreover have "0 < real (length xs)" using ne by simp
  ultimately show ?thesis unfolding m by (simp add: divide_le_eq)
qed

lemma chain_collective_length:
  "length (collective_accuracies n (chain_grid k m S p c g pos)) = S"
  by (simp add: collective_accuracies_length chain_grid_cells_length)

lemma chain_outcome_zero_accuracy_first:
  assumes "0 \<le> g (pos + t)"
  shows "\<not> chain_outcome S 0 c g pos t 0"
  using assms by (simp add: bernoulli_def)

lemma chain_outcome_zero_accuracy_later:
  assumes "- 1 \<le> c" "c \<le> 1"
  shows "chain_outcome S 0 c g pos t (Suc i)"
  by (simp add: correlated_value_in_range[OF assms] np_clip_unit np_ge_def spec_clip_def)

lemma filter_true_all_but_first:
  assumes "0 < n"
  shows "length (filter (\<lambda>b. b) (map (\<lambda>i. 0 < i) [0..<n])) = n - 1"
proof -
  have "[0..<n] = 0 # [Suc 0..<n]" using assms by (simp add: upt_conv_Cons)
  then have "filter (\<lambda>b. b) (map (\<lambda>i. 0 < i) [0..<n]) = map (\<lambda>i. 0 < i) [Suc 0..<n]"
    by (simp add: filter_id_conv)
  then show ?thesis by simp
qed

lemma chain_outcome_copy:
  assumes "0 < p" "p \<le> 1"
  shows "chain_outcome S p 1 g pos t i = chain_outcome S p 1 g pos t 0"
proof (induction i)
  case 0
  show ?case by simp
next
  case (Suc i)
  have "chain_outcome S p 1 g pos t (Suc i) = chain_outcome S p 1 g pos t i"
    using assms
    by (simp add: correlated_value_def np_sqrt_def np_clip_def np_ge_def)
  with Suc show ?case by simp
qed

lemma upto_1_4: "[1..4] = [1, 2, 3, 4::int]"
  by (simp add: upto_rec1)

text \<open>The unfolding used to run the code on concrete inputs.\<close>

lemmas run_simps = individual_estimates_def random_choice_def upt_conv_Cons eval_nat_numeral
  np_zeros_def set_column_def bernoulli_def get_column_def correlated_values_def
  correlated_value_def np_sqrt_def np_clip_def np_ge_def constant_source_def
  py_float_square_def float_overflow_def

section \<open>The claims\<close>




text \<open>
  C2. For valid parameters the call returns, and for every learner index \<open>i\<close> with
  \<open>1 \<le> i \<le> num_learners - 1\<close> and every trial \<open>t\<close> the cell of learner \<open>i\<close> in the grid
  is the outcome the specification describes: the threshold test, against
  \<open>individual_accuracy\<close>, of the clipped blend of the bipolar signal of learner
  \<open>i - 1\<close> in the same trial and the fresh draw of learner \<open>i\<close> for that trial (sample
  \<open>pos + i * num_simulations + t\<close> of the random source). Floats are read as reals.
\<close>

theorem learner_outcome_formula:
  assumes "1 \<le> num_learners" "1 \<le> num_simulations"
    and "0 \<le> individual_accuracy" "individual_accuracy \<le> 1"
    and "- 1 \<le> correlation_strength" "correlation_strength \<le> 1"
  shows "\<exists>est pos'.
           individual_estimates num_learners num_simulations individual_accuracy
             correlation_strength g pos = (Inr est, pos') \<and>
           (\<forall>i t. 1 \<le> i \<and> i \<le> nat num_learners - 1 \<and> t < nat num_simulations \<longrightarrow>
              cells est ! t ! i =
                spec_learner_outcome individual_accuracy correlation_strength
                  (cells est ! t ! (i - 1))
                  (bernoulli (g (pos + i * nat num_simulations + t)) individual_accuracy))"
proof -
  let ?n = "nat num_learners" and ?S = "nat num_simulations"
  let ?est = "chain_grid ?n ?n ?S individual_accuracy correlation_strength g pos"
  have run: "individual_estimates num_learners num_simulations individual_accuracy
               correlation_strength g pos = (Inr ?est, pos + ?n * ?S)"
    using assms unit_square_fits[of correlation_strength]
    by (intro individual_estimates_chain) simp_all
  have "cells ?est ! t ! i =
          spec_learner_outcome individual_accuracy correlation_strength
            (cells ?est ! t ! (i - 1))
            (bernoulli (g (pos + i * ?S + t)) individual_accuracy)"
    if i1: "1 \<le> i" and i2: "i \<le> ?n - 1" and t: "t < ?S" for i t
  proof -
    obtain j where i: "i = Suc j" using i1 by (cases i) auto
    have "i < ?n" "j < ?n" using i1 i2 i assms(1) by simp_all
    then show ?thesis
      using t chain_outcome_Suc_spec[OF assms(5,6), of ?S individual_accuracy g pos t j]
      by (simp add: chain_grid_cell i)
  qed
  with run show ?thesis by blast
qed

theorem learner_outcome_formula_witness:
  "(1::int) \<le> 3 \<and> (1::int) \<le> 2 \<and> (0::real) \<le> 1/2 \<and> (1/2::real) \<le> 1 \<and> - 1 \<le> (0::real)
   \<and> (0::real) \<le> 1 \<and>
   (\<exists>est pos'.
      individual_estimates 3 2 (1/2) 0 (constant_source (1/4)) 0 = (Inr est, pos') \<and>
      cells est ! 0 ! 1 =
        spec_learner_outcome (1/2) 0 (cells est ! 0 ! 0)
          (bernoulli (constant_source (1/4) 2) (1/2)) \<and>
      cells est ! 1 ! 2 =
        spec_learner_outcome (1/2) 0 (cells est ! 1 ! 1)
          (bernoulli (constant_source (1/4) 5) (1/2)))"
proof -
  obtain est pos' where
    run: "individual_estimates 3 2 (1/2) 0 (constant_source (1/4)) 0 = (Inr est, pos')" and
    all: "\<forall>i t. 1 \<le> i \<and> i \<le> nat 3 - 1 \<and> t < nat 2 \<longrightarrow>
            cells est ! t ! i =
              spec_learner_outcome (1/2) 0 (cells est ! t ! (i - 1))
                (bernoulli (constant_source (1/4) (0 + i * nat 2 + t)) (1/2))"
    using learner_outcome_formula[of 3 2 "1/2" 0 "constant_source (1/4)" 0] by auto
  from all[rule_format, of 1 0] all[rule_format, of 2 1] run show ?thesis
    by (simp add: constant_source_def)
qed

text \<open>
  C3. For valid parameters the call returns, and the collective outcome of every
  trial \<open>t\<close> is true exactly when the number of correct learners in row \<open>t\<close> of the
  grid is at least \<open>num_learners div 2 + 1\<close>; for an even number of learners a tie
  (exactly half of them correct) gives a false collective outcome.
\<close>

theorem majority_threshold:
  assumes "1 \<le> num_learners" "1 \<le> num_simulations"
    and "0 \<le> individual_accuracy" "individual_accuracy \<le> 1"
    and "- 1 \<le> correlation_strength" "correlation_strength \<le> 1"
  shows "\<exists>est mean_collective outs pos'.
           individual_estimates num_learners num_simulations individual_accuracy
             correlation_strength g pos = (Inr est, pos') \<and>
           simulate_collective_accuracy num_learners num_simulations individual_accuracy
             correlation_strength g pos = (Inr (mean_collective, outs), pos') \<and>
           (\<forall>t. t < nat num_simulations \<longrightarrow>
              (outs ! t \<longleftrightarrow>
                 num_learners div 2 + 1
                   \<le> int (spec_correct_count (nat num_learners) (cells est ! t))) \<and>
              (even num_learners \<and>
                 2 * int (spec_correct_count (nat num_learners) (cells est ! t)) = num_learners
               \<longrightarrow> \<not> outs ! t))"
proof -
  let ?n = "nat num_learners" and ?S = "nat num_simulations"
  let ?est = "chain_grid ?n ?n ?S individual_accuracy correlation_strength g pos"
  let ?outs = "collective_accuracies num_learners ?est"
  have v: "0 \<le> individual_accuracy" "individual_accuracy \<le> 1" "1 \<le> num_learners"
    "0 \<le> num_simulations" "correlation_strength ^ 2 < float_overflow"
    using assms unit_square_fits[of correlation_strength] by simp_all
  have nth: "?outs ! t \<longleftrightarrow>
             num_learners div 2 + 1 \<le> int (spec_correct_count ?n (cells ?est ! t))"
    if t: "t < ?S" for t
  proof -
    have "length (cells ?est ! t) = ?n" using t by (simp add: chain_grid_row)
    then show ?thesis
      using t count_true_card[of "cells ?est ! t"]
      by (simp add: collective_accuracies_nth chain_grid_cells_length)
  qed
  have tie: "\<not> ?outs ! t"
    if t: "t < ?S" and "even num_learners"
      and "2 * int (spec_correct_count ?n (cells ?est ! t)) = num_learners" for t
    using that nth[OF t] by auto
  show ?thesis
    using individual_estimates_chain[OF v, of g pos]
      simulate_chain[OF v, of g pos] nth tie
    by blast
qed

theorem majority_threshold_witness:
  "(1::int) \<le> 2 \<and> (1::int) \<le> 1 \<and> (0::real) \<le> 1/2 \<and> (1/2::real) \<le> 1 \<and>
   - 1 \<le> (- 1::real) \<and> (- 1::real) \<le> 1 \<and>
   (\<exists>est mean_collective outs pos'.
      individual_estimates 2 1 (1/2) (- 1) (constant_source (1/4)) 0 = (Inr est, pos') \<and>
      simulate_collective_accuracy 2 1 (1/2) (- 1) (constant_source (1/4)) 0
        = (Inr (mean_collective, outs), pos') \<and>
      cells est ! 0 = [True, False] \<and>
      spec_correct_count (nat 2) (cells est ! 0) = 1 \<and>
      \<not> outs ! 0)"
proof -
  obtain est mean_collective outs pos' where
    run: "individual_estimates 2 1 (1/2) (- 1) (constant_source (1/4)) 0 = (Inr est, pos')" and
    sim: "simulate_collective_accuracy 2 1 (1/2) (- 1) (constant_source (1/4)) 0
            = (Inr (mean_collective, outs), pos')" and
    all: "\<forall>t. t < nat 1 \<longrightarrow>
            (outs ! t \<longleftrightarrow> 2 div 2 + 1 \<le> int (spec_correct_count (nat 2) (cells est ! t))) \<and>
            (even (2::int) \<and> 2 * int (spec_correct_count (nat 2) (cells est ! t)) = 2
               \<longrightarrow> \<not> outs ! t)"
    using majority_threshold[of 2 1 "1/2" "- 1" "constant_source (1/4)" 0] by auto
  have "individual_estimates 2 1 (1/2) (- 1) (constant_source (1/4)) 0
          = (Inr \<lparr>n_cols = 2, cells = [[True, False]]\<rparr>, 2)"
    by (simp add: run_simps)
  with run have row: "cells est ! 0 = [True, False]" by auto
  have cnt: "spec_correct_count (nat 2) (cells est ! 0) = 1"
    using count_true_card[of "[True, False]"] by (simp add: row numeral_2_eq_2)
  from all[rule_format, of 0] cnt have "\<not> outs ! 0" by simp
  with run sim row cnt show ?thesis by auto
qed

text \<open>
  C4. For valid parameters and any random source the call returns a sequence of
  exactly \<open>num_simulations\<close> outcomes and a mean that is the arithmetic mean of that
  sequence (true counted as one, false as zero), floats read as reals.
\<close>

theorem mean_is_arithmetic_mean:
  assumes "1 \<le> num_learners" "1 \<le> num_simulations"
    and "0 \<le> individual_accuracy" "individual_accuracy \<le> 1"
    and "- 1 \<le> correlation_strength" "correlation_strength \<le> 1"
  shows "\<exists>mean_collective outs pos'.
           simulate_collective_accuracy num_learners num_simulations individual_accuracy
             correlation_strength g pos = (Inr (Some mean_collective, outs), pos') \<and>
           length outs = nat num_simulations \<and>
           mean_collective = spec_arithmetic_mean (map spec_indicator outs)"
proof -
  let ?n = "nat num_learners" and ?S = "nat num_simulations"
  let ?outs = "collective_accuracies num_learners
                 (chain_grid ?n ?n ?S individual_accuracy correlation_strength g pos)"
  have v: "0 \<le> individual_accuracy" "individual_accuracy \<le> 1" "1 \<le> num_learners"
    "0 \<le> num_simulations" "correlation_strength ^ 2 < float_overflow"
    using assms unit_square_fits[of correlation_strength] by simp_all
  have len: "length ?outs = ?S" by (rule chain_collective_length)
  then have "?outs \<noteq> []" using assms(2) by auto
  then have "np_mean ?outs = Some (spec_arithmetic_mean (map spec_indicator ?outs))"
    by (rule np_mean_spec)
  with simulate_chain[OF v, of g pos] len show ?thesis
    by simp
qed

theorem mean_is_arithmetic_mean_witness:
  "(1::int) \<le> 2 \<and> (1::int) \<le> 3 \<and> (0::real) \<le> 1/2 \<and> (1/2::real) \<le> 1 \<and>
   - 1 \<le> (0::real) \<and> (0::real) \<le> 1 \<and>
   (\<exists>mean_collective outs pos'.
      simulate_collective_accuracy 2 3 (1/2) 0 (constant_source (1/4)) 0
        = (Inr (Some mean_collective, outs), pos') \<and>
      length outs = 3 \<and>
      mean_collective = spec_arithmetic_mean (map spec_indicator outs))"
  using mean_is_arithmetic_mean[of 2 3 "1/2" 0 "constant_source (1/4)" 0] by simp

text \<open>
  C5. The code at \<open>correlation_strength = 1\<close> and \<open>individual_accuracy = 0\<close>, three
  learners and one trial: learner \<open>0\<close> is incorrect (a draw of probability zero),
  yet learners \<open>1\<close> and \<open>2\<close> are correct, because the clipped value \<open>0\<close> passes the test
  \<open>>= 0\<close> of line 57. The learners do not copy learner \<open>0\<close>, and the collective accuracy
  is \<open>1\<close> where the individual accuracy is \<open>0\<close>.
\<close>

theorem perfect_correlation_zero_accuracy:
  "individual_estimates 3 1 0 1 (constant_source (1/2)) 0
     = (Inr \<lparr>n_cols = 3, cells = [[False, True, True]]\<rparr>, 3) \<and>
   simulate_collective_accuracy 3 1 0 1 (constant_source (1/2)) 0
     = (Inr (Some 1, [True]), 3)"
  by (simp add: simulate_collective_accuracy_def collective_accuracies_def np_sum_rows_def
      np_mean_def run_simps)

text \<open>
  At every accuracy above zero the code with \<open>correlation_strength = 1\<close> does what its
  documentation says: every learner has the outcome of learner \<open>0\<close>.
\<close>

lemma perfect_correlation_positive_accuracy:
  assumes "1 \<le> num_learners" "1 \<le> num_simulations"
    and "0 < individual_accuracy" "individual_accuracy \<le> 1"
  shows "\<exists>est pos'.
           individual_estimates num_learners num_simulations individual_accuracy 1 g pos
             = (Inr est, pos') \<and>
           (\<forall>t i. t < nat num_simulations \<and> 1 \<le> i \<and> i < nat num_learners \<longrightarrow>
              cells est ! t ! i = cells est ! t ! 0)"
proof -
  let ?n = "nat num_learners" and ?S = "nat num_simulations"
  let ?est = "chain_grid ?n ?n ?S individual_accuracy 1 g pos"
  have v: "0 \<le> individual_accuracy" "individual_accuracy \<le> 1" "1 \<le> num_learners"
    "0 \<le> num_simulations" "(1::real) ^ 2 < float_overflow"
    using assms unit_below_float_overflow by simp_all
  have "cells ?est ! t ! i = cells ?est ! t ! 0" if "t < ?S" "i < ?n" for t i
    using that chain_outcome_copy[OF assms(3,4), of ?S g pos t i]
    by (simp add: chain_grid_cell)
  with individual_estimates_chain[OF v, of g pos] show ?thesis by blast
qed

text \<open>
  C6. The code at \<open>correlation_strength = -1\<close>, three learners, one trial, accuracy
  \<open>1/2\<close> and a first draw that makes learner \<open>0\<close> correct: learner \<open>1\<close> is incorrect and
  learner \<open>2\<close> is correct again, the same as learner \<open>0\<close> and not its opposite. Every
  learner negates its predecessor, not learner \<open>0\<close>.
\<close>

theorem negative_correlation_alternates:
  "individual_estimates 3 1 (1/2) (- 1) (constant_source (1/4)) 0
     = (Inr \<lparr>n_cols = 3, cells = [[True, False, True]]\<rparr>, 3)"
  by (simp add: run_simps)

text \<open>
  C7. For one learner and valid other parameters the call consumes the
  \<open>num_simulations\<close> samples of learner \<open>0\<close> and no more (the loop over the remaining
  learners has nothing to do), and the collective outcomes are column \<open>0\<close> of the
  grid, which is the sequence of the raw draws.
\<close>

theorem single_learner:
  assumes "1 \<le> num_simulations"
    and "0 \<le> individual_accuracy" "individual_accuracy \<le> 1"
    and "- 1 \<le> correlation_strength" "correlation_strength \<le> 1"
  shows "\<exists>est outs.
           individual_estimates 1 num_simulations individual_accuracy
             correlation_strength g pos = (Inr est, pos + nat num_simulations) \<and>
           simulate_collective_accuracy 1 num_simulations individual_accuracy
             correlation_strength g pos = (Inr (np_mean outs, outs), pos + nat num_simulations) \<and>
           outs = get_column est 0 \<and>
           outs = map (\<lambda>t. bernoulli (g (pos + t)) individual_accuracy \<noteq> 0)
                    [0..<nat num_simulations]"
proof -
  let ?S = "nat num_simulations"
  let ?est = "chain_grid 1 1 ?S individual_accuracy correlation_strength g pos"
  let ?raw = "map (\<lambda>t. bernoulli (g (pos + t)) individual_accuracy \<noteq> 0) [0..<?S]"
  have v: "0 \<le> individual_accuracy" "individual_accuracy \<le> 1" "(1::int) \<le> 1"
    "0 \<le> num_simulations" "correlation_strength ^ 2 < float_overflow"
    using assms unit_square_fits[of correlation_strength] by simp_all
  have col: "get_column ?est 0 = ?raw"
    by (simp add: get_column_def chain_grid_def)
  have outs: "collective_accuracies 1 ?est = ?raw"
    by (simp add: collective_accuracies_def np_sum_rows_def chain_grid_def)
  show ?thesis
    using individual_estimates_chain[OF v, of g pos]
      simulate_chain[OF v, of g pos] col outs
    by simp
qed

theorem single_learner_witness:
  "(1::int) \<le> 2 \<and> (0::real) \<le> 1/2 \<and> (1/2::real) \<le> 1 \<and> - 1 \<le> (1::real) \<and> (1::real) \<le> 1 \<and>
   simulate_collective_accuracy 1 2 (1/2) 1 (constant_source (1/4)) 0
     = (Inr (Some 1, [True, True]), 2)"
  using single_learner[of 2 "1/2" 1 "constant_source (1/4)" 0]
  by (auto simp: np_mean_def bernoulli_def constant_source_def upt_conv_Cons eval_nat_numeral)

text \<open>
  C8. The running average of line 87 on the outcomes \<open>[true, false, true, true]\<close>,
  every entry rounded to three decimals, is \<open>[1.0, 0.5, 0.667, 0.75]\<close>.
\<close>

theorem running_average_example:
  "(case cumulative_accuracies [True, False, True, True] 4 of
      Inl e \<Rightarrow> None
    | Inr xs \<Rightarrow> Some (map spec_round3 xs))
   = Some [1.0, 0.5, 0.667, 0.75]"
  by (simp add: cumulative_accuracies_def np_cumsum_def upto_1_4 spec_round3_def round_def)

text \<open>
  C9. For valid parameters and any random source the call returns a mean in the
  closed interval \<open>[0, 1]\<close>.
\<close>

theorem mean_in_unit_interval:
  assumes "1 \<le> num_learners" "1 \<le> num_simulations"
    and "0 \<le> individual_accuracy" "individual_accuracy \<le> 1"
    and "- 1 \<le> correlation_strength" "correlation_strength \<le> 1"
  shows "\<exists>mean_collective outs pos'.
           simulate_collective_accuracy num_learners num_simulations individual_accuracy
             correlation_strength g pos = (Inr (Some mean_collective, outs), pos') \<and>
           0 \<le> mean_collective \<and> mean_collective \<le> 1"
proof -
  let ?n = "nat num_learners" and ?S = "nat num_simulations"
  let ?outs = "collective_accuracies num_learners
                 (chain_grid ?n ?n ?S individual_accuracy correlation_strength g pos)"
  have v: "0 \<le> individual_accuracy" "individual_accuracy \<le> 1" "1 \<le> num_learners"
    "0 \<le> num_simulations" "correlation_strength ^ 2 < float_overflow"
    using assms unit_square_fits[of correlation_strength] by simp_all
  have "length ?outs = ?S" by (rule chain_collective_length)
  then have "?outs \<noteq> []" using assms(2) by auto
  then obtain m where m: "np_mean ?outs = Some m" by (auto simp: np_mean_def)
  from np_mean_bounds[OF m] m simulate_chain[OF v, of g pos]
  show ?thesis by simp
qed

theorem mean_in_unit_interval_witness:
  "(1::int) \<le> 2 \<and> (1::int) \<le> 3 \<and> (0::real) \<le> 1/2 \<and> (1/2::real) \<le> 1 \<and>
   - 1 \<le> (0::real) \<and> (0::real) \<le> 1 \<and>
   (\<exists>mean_collective outs pos'.
      simulate_collective_accuracy 2 3 (1/2) 0 (constant_source (1/4)) 0
        = (Inr (Some mean_collective, outs), pos') \<and>
      0 \<le> mean_collective \<and> mean_collective \<le> 1)"
  using mean_in_unit_interval[of 2 3 "1/2" 0 "constant_source (1/4)" 0] by simp

text \<open>
  C10. For \<open>individual_accuracy = 0\<close>, a correlation strength in \<open>[-1, 1]\<close>, at least two
  learners and a random source with samples in \<open>[0, 1)\<close>: in every trial learner \<open>0\<close>
  is incorrect and every learner \<open>i \<ge> 1\<close> is correct; with at least three learners
  every collective outcome is true and the mean is \<open>1\<close>.
\<close>

theorem zero_accuracy:
  assumes "2 \<le> num_learners" "1 \<le> num_simulations"
    and "- 1 \<le> correlation_strength" "correlation_strength \<le> 1"
    and "\<forall>k. 0 \<le> g k \<and> g k < 1"
  shows "\<exists>est pos'.
           individual_estimates num_learners num_simulations 0 correlation_strength g pos
             = (Inr est, pos') \<and>
           (\<forall>t. t < nat num_simulations \<longrightarrow>
              \<not> cells est ! t ! 0 \<and>
              (\<forall>i. 1 \<le> i \<and> i < nat num_learners \<longrightarrow> cells est ! t ! i)) \<and>
           (3 \<le> num_learners \<longrightarrow>
              simulate_collective_accuracy num_learners num_simulations 0 correlation_strength
                g pos = (Inr (Some 1, replicate (nat num_simulations) True), pos'))"
proof -
  let ?n = "nat num_learners" and ?S = "nat num_simulations"
  let ?est = "chain_grid ?n ?n ?S 0 correlation_strength g pos"
  let ?outs = "collective_accuracies num_learners ?est"
  have v: "(0::real) \<le> 0" "(0::real) \<le> 1" "1 \<le> num_learners" "0 \<le> num_simulations"
    "correlation_strength ^ 2 < float_overflow"
    using assms unit_square_fits[of correlation_strength] by simp_all
  have out: "chain_outcome ?S 0 correlation_strength g pos t i \<longleftrightarrow> 0 < i" for t i
    using chain_outcome_zero_accuracy_first[of g pos t ?S correlation_strength]
      chain_outcome_zero_accuracy_later[OF assms(3,4), of ?S g pos t] assms(5)
    by (cases i) simp_all
  have row: "cells ?est ! t = map (\<lambda>i. 0 < i) [0..<?n]" if "t < ?S" for t
    using that by (simp add: chain_grid_row out)
  have cell: "\<not> cells ?est ! t ! 0 \<and> (\<forall>i. 1 \<le> i \<and> i < ?n \<longrightarrow> cells ?est ! t ! i)"
    if "t < ?S" for t
    using that assms(1) by (simp add: row)
  have sim: "simulate_collective_accuracy num_learners num_simulations 0 correlation_strength
               g pos = (Inr (Some 1, replicate ?S True), pos + ?n * ?S)"
    if three: "3 \<le> num_learners"
  proof -
    have "?outs ! t" if "t < ?S" for t
    proof -
      have le: "num_learners div 2 + 1 \<le> int (?n - 1)" using three by linarith
      have "0 < ?n" using three by simp
      then have "length (filter (\<lambda>b. b) (cells ?est ! t)) = ?n - 1"
        unfolding row[OF that] by (rule filter_true_all_but_first)
      with le show ?thesis
        using that by (simp only: collective_accuracies_nth chain_grid_cells_length)
    qed
    then have outs: "?outs = replicate ?S True"
      by (intro nth_equalityI) (simp_all add: chain_collective_length)
    have "np_mean (replicate ?S True) = Some 1"
      using assms(2) by (simp add: np_mean_def)
    with simulate_chain[OF v, of g pos] outs show ?thesis
      by simp
  qed
  show ?thesis
    using individual_estimates_chain[OF v, of g pos] cell sim
    by blast
qed

theorem zero_accuracy_witness:
  "(2::int) \<le> 3 \<and> (1::int) \<le> 2 \<and> - 1 \<le> (0::real) \<and> (0::real) \<le> 1 \<and>
   (\<forall>k. 0 \<le> constant_source (1/2) k \<and> constant_source (1/2) k < 1) \<and>
   (3::int) \<le> 3 \<and>
   individual_estimates 3 2 0 0 (constant_source (1/2)) 0
     = (Inr \<lparr>n_cols = 3, cells = [[False, True, True], [False, True, True]]\<rparr>, 6) \<and>
   simulate_collective_accuracy 3 2 0 0 (constant_source (1/2)) 0
     = (Inr (Some 1, [True, True]), 6)"
proof -
  have g: "\<forall>k. 0 \<le> constant_source (1/2) k \<and> constant_source (1/2) k < 1"
    by (simp add: constant_source_def)
  have run: "individual_estimates 3 2 0 0 (constant_source (1/2)) 0
     = (Inr \<lparr>n_cols = 3, cells = [[False, True, True], [False, True, True]]\<rparr>, 6)"
    by (simp add: run_simps)
  from zero_accuracy[of 3 2 0 "constant_source (1/2)" 0] g run show ?thesis
    by (simp add: eval_nat_numeral)
qed

end
